theory Spec2Isabelle
  imports Main "HOL-Library.AList"
begin

section \<open>The chat backend of \<^verbatim>\<open>src/backend/app.py\<close>\<close>

text \<open>
  The program keeps all of its state in the directory \<^verbatim>\<open>data\<close>: the table
  \<^verbatim>\<open>users.csv\<close>, the table \<^verbatim>\<open>messages.csv\<close> and the files under
  \<^verbatim>\<open>data/uploads\<close>. Every handler reads a table whole with \<^verbatim>\<open>pd.read_csv\<close>, changes
  it and writes it back with \<^verbatim>\<open>to_csv\<close>, so the model passes the directory's contents
  through each handler and returns the new contents with the response.

  A table file is given by the table that \<^verbatim>\<open>to_csv\<close> was last called on. What
  \<^verbatim>\<open>pd.read_csv\<close> makes of that file is not the table written: pandas infers the type of
  each column from the text, so a column of digit strings comes back as numbers and
  an empty cell as NaN. That reading is a parameter of the model, as is everything else
  the program takes from libraries and from the clock: the SHA-256 digest, werkzeug's
  \<^verbatim>\<open>secure_filename\<close>, the sizes of the files on disk, and the readings of
  \<^verbatim>\<open>datetime.now()\<close>. The upload directory holds regular files only, which is all the
  program ever puts there, and file operations succeed.
\<close>

subsection \<open>Persisted state\<close>

text \<open>
  A cell of a table: a string, a number (kept by the text that \<^verbatim>\<open>to_csv\<close> writes for
  it), a boolean, or a missing value (\<^verbatim>\<open>None\<close> or NaN, written as the empty text).
\<close>

datatype cell = Str string | Num string | Bool bool | NaN

record user_row =
  u_username :: cell
  u_password_hash :: cell

record message_row =
  m_timestamp :: cell
  m_username :: cell
  m_message :: cell
  m_type :: cell

record 'b data_dir =
  users :: "user_row list"
  messages :: "message_row list"
  uploads :: "(string \<times> 'b) list"

text \<open>
  The library functions the program calls; \<open>'b\<close> is the content of an uploaded file.
  \<open>infer_users\<close> and \<open>infer_messages\<close> give the table that \<^verbatim>\<open>pd.read_csv\<close> returns for
  the file that \<^verbatim>\<open>to_csv\<close> wrote from a table with at least one row.
\<close>

record 'b lib =
  sha256_hexdigest :: "string \<Rightarrow> string"
  secure_filename :: "string \<Rightarrow> string"
  infer_users :: "user_row list \<Rightarrow> user_row list"
  infer_messages :: "message_row list \<Rightarrow> message_row list"
  users_csv_size :: "user_row list \<Rightarrow> nat"
  messages_csv_size :: "message_row list \<Rightarrow> nat"
  blob_size :: "'b \<Rightarrow> nat"

text \<open>
  \<^verbatim>\<open>pd.read_csv(USERS_FILE)\<close> and \<^verbatim>\<open>pd.read_csv(MESSAGES_FILE)\<close>: a file that holds the
  header line alone is read as the table without rows.
\<close>

definition read_csv_users :: "'b lib \<Rightarrow> user_row list \<Rightarrow> user_row list" where
  "read_csv_users L written = (if written = [] then [] else infer_users L written)"

definition read_csv_messages :: "'b lib \<Rightarrow> message_row list \<Rightarrow> message_row list" where
  "read_csv_messages L written = (if written = [] then [] else infer_messages L written)"

subsection \<open>Requests and responses\<close>

text \<open>
  A JSON object as \<^verbatim>\<open>request.json\<close> returns it: a dictionary from keys to values; the
  values that the handlers read are strings or \<^verbatim>\<open>null\<close> (\<open>None\<close>).
\<close>

type_synonym json = "(string \<times> string option) list"

definition dict_get :: "json \<Rightarrow> string \<Rightarrow> string option" where
  "dict_get d k = (case map_of d k of None \<Rightarrow> None | Some v \<Rightarrow> v)"

definition dict_get_default :: "json \<Rightarrow> string \<Rightarrow> string \<Rightarrow> string option" where
  "dict_get_default d k dflt = (case map_of d k of None \<Rightarrow> Some dflt | Some v \<Rightarrow> v)"

text \<open>Python's \<^verbatim>\<open>not v\<close> on a value that is \<^verbatim>\<open>None\<close> or a string.\<close>

definition falsy :: "string option \<Rightarrow> bool" where
  "falsy v = (v = None \<or> v = Some [])"

text \<open>The value put into a table for a JSON string or \<^verbatim>\<open>null\<close>.\<close>

definition cell_of :: "string option \<Rightarrow> cell" where
  "cell_of v = (case v of None \<Rightarrow> NaN | Some t \<Rightarrow> Str t)"

datatype exn = BadRequest | UnsupportedMediaType | AttributeError | FileNotFoundError string

text \<open>
  What \<^verbatim>\<open>request.json\<close> does: it raises when the request has no JSON body or one that
  cannot be parsed; otherwise it returns the parsed value, which is \<^verbatim>\<open>null\<close>, an object,
  or some other JSON value, of which the handlers only test whether it is truthy.
\<close>

datatype request_json =
    Raises exn
  | Json_Null
  | Json_Other bool
  | Json_Object json

text \<open>
  The body of a response: \<open>Error\<close> is \<^verbatim>\<open>{'error': text}\<close> with a text of the program's,
  \<open>Error_Str\<close> is \<^verbatim>\<open>{'error': str(e)}\<close> for a caught exception.
\<close>

datatype 'b payload =
    Error string
  | Error_Str exn
  | Status_Message string
  | Status_Username string
  | Status_Filename string
  | Records "message_row list"
  | File_Content 'b

type_synonym 'b response = "'b payload \<times> nat"

subsection \<open>File-type check\<close>

definition ALLOWED_EXTENSIONS :: "string set" where
  "ALLOWED_EXTENSIONS = {''png'', ''jpg'', ''jpeg'', ''gif''}"

definition MAX_DATA_SIZE :: nat where
  "MAX_DATA_SIZE = 400 * 1024 * 1024"

text \<open>\<^verbatim>\<open>str.lower\<close>, on the ASCII letters.\<close>

definition lower_char :: "char \<Rightarrow> char" where
  "lower_char c =
     (case map_of (zip ''ABCDEFGHIJKLMNOPQRSTUVWXYZ'' ''abcdefghijklmnopqrstuvwxyz'') c of
        None \<Rightarrow> c
      | Some l \<Rightarrow> l)"

definition lower :: "string \<Rightarrow> string" where
  "lower s = map lower_char s"

text \<open>\<^verbatim>\<open>filename.rsplit('.', 1)[1]\<close>: what follows the last dot of a name that has one.\<close>

definition rsplit_dot_last :: "string \<Rightarrow> string" where
  "rsplit_dot_last filename = rev (takeWhile (\<lambda>c. c \<noteq> CHR ''.'') (rev filename))"

definition allowed_file :: "string \<Rightarrow> bool" where
  "allowed_file filename \<longleftrightarrow>
     CHR ''.'' \<in> set filename \<and> lower (rsplit_dot_last filename) \<in> ALLOWED_EXTENSIONS"

definition hash_password :: "'b lib \<Rightarrow> string \<Rightarrow> string" where
  "hash_password L password = sha256_hexdigest L password"

subsection \<open>Retention guard\<close>

text \<open>\<^verbatim>\<open>os.walk('data')\<close> meets the two tables and every uploaded file.\<close>

definition get_data_size :: "'b lib \<Rightarrow> 'b data_dir \<Rightarrow> nat" where
  "get_data_size L s =
     users_csv_size L (users s) + messages_csv_size L (messages s)
       + sum_list (map (\<lambda>(f, b). blob_size L b) (uploads s))"

text \<open>
  The messages table is rewritten with its header alone, then each name that
  \<^verbatim>\<open>os.listdir\<close> returned is unlinked in turn.
\<close>

definition clear_data :: "'b data_dir \<Rightarrow> 'b data_dir \<times> bool" where
  "clear_data s =
     (let s1 = s\<lparr>messages := []\<rparr>;
          s2 = s1\<lparr>uploads := fold (\<lambda>filename dir. AList.delete filename dir)
                                 (map fst (uploads s1)) (uploads s1)\<rparr>
      in (s2, True))"

definition check_and_clear_data :: "'b lib \<Rightarrow> 'b data_dir \<Rightarrow> 'b data_dir" where
  "check_and_clear_data L s =
     (let current_size = get_data_size L s
      in if current_size > MAX_DATA_SIZE then fst (clear_data s) else s)"

subsection \<open>Handlers\<close>

text \<open>
  Each handler runs in a \<^verbatim>\<open>try\<close> whose \<^verbatim>\<open>except Exception\<close> answers 500 with the
  exception's text. \<^verbatim>\<open>username in users['username'].values\<close> and
  \<^verbatim>\<open>users['username'] == username\<close> compare the cells that were read with the string of
  the request: a cell that is not a string equals none.
\<close>

definition register :: "'b lib \<Rightarrow> 'b data_dir \<Rightarrow> request_json \<Rightarrow> 'b data_dir \<times> 'b response" where
  "register L s data =
     (case data of
        Raises e \<Rightarrow> (s, Error_Str e, 500)
      | Json_Null \<Rightarrow> (s, Error ''No JSON data received'', 400)
      | Json_Other truthy \<Rightarrow>
          if \<not> truthy then (s, Error ''No JSON data received'', 400)
          else (s, Error_Str AttributeError, 500)
      | Json_Object d \<Rightarrow>
          if d = [] then (s, Error ''No JSON data received'', 400)
          else
            let username = dict_get d ''username'';
                password = dict_get d ''password''
            in if falsy username \<or> falsy password
               then (s, Error ''Username and password are required'', 400)
               else
                 let users_read = read_csv_users L (users s)
                 in if Str (the username) \<in> set (map u_username users_read)
                    then (s, Error ''Username already exists'', 400)
                    else
                      let new_user = \<lparr>u_username = Str (the username),
                                      u_password_hash = Str (hash_password L (the password))\<rparr>
                      in (s\<lparr>users := users_read @ [new_user]\<rparr>,
                          Status_Message ''User registered successfully'', 200))"

definition login :: "'b lib \<Rightarrow> 'b data_dir \<Rightarrow> request_json \<Rightarrow> 'b response" where
  "login L s data =
     (case data of
        Raises e \<Rightarrow> (Error_Str e, 500)
      | Json_Null \<Rightarrow> (Error ''No JSON data received'', 400)
      | Json_Other truthy \<Rightarrow>
          if \<not> truthy then (Error ''No JSON data received'', 400)
          else (Error_Str AttributeError, 500)
      | Json_Object d \<Rightarrow>
          if d = [] then (Error ''No JSON data received'', 400)
          else
            let username = dict_get d ''username'';
                password = dict_get d ''password''
            in if falsy username \<or> falsy password
               then (Error ''Username and password are required'', 400)
               else
                 let users_read = read_csv_users L (users s);
                     user = filter (\<lambda>r. u_username r = Str (the username)) users_read
                 in if user = [] \<or>
                       u_password_hash (hd user) \<noteq> Str (hash_password L (the password))
                    then (Error ''Invalid username or password'', 401)
                    else (Status_Username (the username), 200))"

text \<open>
  The upload handler reads the multipart part \<^verbatim>\<open>file\<close> (its filename and content, \<open>None\<close>
  when the part is missing) and the form field \<^verbatim>\<open>username\<close>; \<open>now_ts\<close> and \<open>now_iso\<close>
  are the texts of \<^verbatim>\<open>datetime.now().timestamp()\<close> and \<^verbatim>\<open>datetime.now().isoformat()\<close>.
\<close>

definition upload_image ::
  "'b lib \<Rightarrow> 'b data_dir \<Rightarrow> (string \<times> 'b) option \<Rightarrow> string option \<Rightarrow> string \<Rightarrow> string
     \<Rightarrow> 'b data_dir \<times> 'b response" where
  "upload_image L s file username now_ts now_iso =
     (case file of
        None \<Rightarrow> (s, Error ''No file part'', 400)
      | Some (file_filename, content) \<Rightarrow>
          if falsy username then (s, Error ''Username is required'', 400)
          else if file_filename = [] then (s, Error ''No selected file'', 400)
          else if file_filename \<noteq> [] \<and> allowed_file file_filename then
            let s1 = check_and_clear_data L s;
                filename = secure_filename L (now_ts @ ''_'' @ file_filename);
                s2 = s1\<lparr>uploads := AList.update filename content (uploads s1)\<rparr>;
                messages_read = read_csv_messages L (messages s2);
                new_message = \<lparr>m_timestamp = Str now_iso, m_username = Str (the username),
                                m_message = Str filename, m_type = Str ''image''\<rparr>;
                s3 = s2\<lparr>messages := messages_read @ [new_message]\<rparr>
            in (s3, Status_Filename filename, 200)
          else (s, Error ''File type not allowed'', 400))"

definition get_image :: "'b data_dir \<Rightarrow> string \<Rightarrow> 'b response" where
  "get_image s filename =
     (case map_of (uploads s) filename of
        Some content \<Rightarrow> (File_Content content, 200)
      | None \<Rightarrow> (Error_Str (FileNotFoundError filename), 500))"

text \<open>\<^verbatim>\<open>messages['type'].fillna('text')\<close>\<close>

definition fillna_type :: "cell \<Rightarrow> message_row \<Rightarrow> message_row" where
  "fillna_type v r = (if m_type r = NaN then r\<lparr>m_type := v\<rparr> else r)"

definition get_messages :: "'b lib \<Rightarrow> 'b data_dir \<Rightarrow> 'b response" where
  "get_messages L s =
     (let messages_read = read_csv_messages L (messages s)
      in (Records (map (fillna_type (Str ''text'')) messages_read), 200))"

definition send_message ::
  "'b lib \<Rightarrow> 'b data_dir \<Rightarrow> request_json \<Rightarrow> string \<Rightarrow> 'b data_dir \<times> 'b response" where
  "send_message L s data now_iso =
     (case data of
        Raises e \<Rightarrow> (s, Error_Str e, 500)
      | Json_Null \<Rightarrow> (s, Error ''No JSON data received'', 400)
      | Json_Other truthy \<Rightarrow>
          if \<not> truthy then (s, Error ''No JSON data received'', 400)
          else (s, Error_Str AttributeError, 500)
      | Json_Object d \<Rightarrow>
          if d = [] then (s, Error ''No JSON data received'', 400)
          else
            let username = dict_get d ''username'';
                message = dict_get d ''message'';
                message_type = dict_get_default d ''type'' ''text''
            in if falsy username \<or> falsy message
               then (s, Error ''Username and message are required'', 400)
               else
                 let users_read = read_csv_users L (users s)
                 in if Str (the username) \<notin> set (map u_username users_read)
                    then (s, Error ''User not found'', 401)
                    else
                      let s1 = check_and_clear_data L s;
                          new_message = \<lparr>m_timestamp = Str now_iso,
                                          m_username = Str (the username),
                                          m_message = Str (the message),
                                          m_type = cell_of message_type\<rparr>;
                          messages_read = read_csv_messages L (messages s1)
                      in (s1\<lparr>messages := messages_read @ [new_message]\<rparr>,
                          Status_Message ''Message sent successfully'', 200))"

subsection \<open>Dispatch\<close>

datatype 'b request =
    Register request_json
  | Login request_json
  | Upload "(string \<times> 'b) option" "string option" string string
  | Get_Image string
  | Get_Messages
  | Send_Message request_json string

fun handle :: "'b lib \<Rightarrow> 'b data_dir \<Rightarrow> 'b request \<Rightarrow> 'b data_dir \<times> 'b response" where
  "handle L s (Register data) = register L s data"
| "handle L s (Login data) = (s, login L s data)"
| "handle L s (Upload file username now_ts now_iso) = upload_image L s file username now_ts now_iso"
| "handle L s (Get_Image filename) = (s, get_image s filename)"
| "handle L s Get_Messages = (s, get_messages L s)"
| "handle L s (Send_Message data now_iso) = send_message L s data now_iso"

subsection \<open>A concrete instance\<close>

text \<open>
  An instance of the library, for evaluating the handlers. An uploaded file is given by
  its size alone, a table's size is its header plus, per row, the texts of its cells
  with their separators, and the digest is a stand-in that marks its argument.

  \<open>read_column\<close> does what pandas does to a column in the cases the evaluations
  meet: when every cell's text is a string of at most 18 decimal digits the column is
  read as numbers (leading zeros are lost); otherwise every cell is read as its text,
  the empty text as NaN. It is not pandas on columns that hold other spellings of
  numbers, booleans, or further markers of missing values.
\<close>

definition cell_text :: "cell \<Rightarrow> string" where
  "cell_text c =
     (case c of Str t \<Rightarrow> t | Num t \<Rightarrow> t | Bool b \<Rightarrow> (if b then ''True'' else ''False'')
      | NaN \<Rightarrow> [])"

definition is_int_text :: "string \<Rightarrow> bool" where
  "is_int_text t \<longleftrightarrow> t \<noteq> [] \<and> length t \<le> 18 \<and> list_all (\<lambda>c. c \<in> set ''0123456789'') t"

definition int_text :: "string \<Rightarrow> string" where
  "int_text t = (case dropWhile (\<lambda>c. c = CHR ''0'') t of [] \<Rightarrow> ''0'' | r \<Rightarrow> r)"

definition read_column :: "cell list \<Rightarrow> cell list" where
  "read_column col =
     (let texts = map cell_text col
      in if list_all is_int_text texts then map (\<lambda>t. Num (int_text t)) texts
         else map (\<lambda>t. if t = [] then NaN else Str t) texts)"

definition read_users_table :: "user_row list \<Rightarrow> user_row list" where
  "read_users_table rows =
     map (\<lambda>(u, h). \<lparr>u_username = u, u_password_hash = h\<rparr>)
       (zip (read_column (map u_username rows)) (read_column (map u_password_hash rows)))"

definition read_messages_table :: "message_row list \<Rightarrow> message_row list" where
  "read_messages_table rows =
     map (\<lambda>(t, u, m, ty). \<lparr>m_timestamp = t, m_username = u, m_message = m, m_type = ty\<rparr>)
       (zip (read_column (map m_timestamp rows))
         (zip (read_column (map m_username rows))
           (zip (read_column (map m_message rows)) (read_column (map m_type rows)))))"

definition lib0 :: "nat lib" where
  "lib0 = \<lparr>sha256_hexdigest = (\<lambda>p. ''sha256:'' @ p),
           secure_filename = (\<lambda>f. f),
           infer_users = read_users_table,
           infer_messages = read_messages_table,
           users_csv_size = (\<lambda>rows. 23 + sum_list (map (\<lambda>r. length (cell_text (u_username r))
                                 + length (cell_text (u_password_hash r)) + 2) rows)),
           messages_csv_size = (\<lambda>rows. 32 + sum_list (map (\<lambda>r. length (cell_text (m_timestamp r))
                                 + length (cell_text (m_username r))
                                 + length (cell_text (m_message r))
                                 + length (cell_text (m_type r)) + 4) rows)),
           blob_size = (\<lambda>b. b)\<rparr>"

definition empty_dir :: "nat data_dir" where
  "empty_dir = \<lparr>users = [], messages = [], uploads = []\<rparr>"

definition alice_row :: user_row where
  "alice_row = \<lparr>u_username = Str ''alice'', u_password_hash = Str ''sha256:secret''\<rparr>"

definition alice_dir :: "nat data_dir" where
  "alice_dir = \<lparr>users = [alice_row], messages = [], uploads = []\<rparr>"

definition full_dir :: "nat data_dir" where
  "full_dir = \<lparr>users = [alice_row],
               messages = [\<lparr>m_timestamp = Str ''2024-01-01T00:00:00'', m_username = Str ''alice'',
                            m_message = Str ''hi'', m_type = Str ''text''\<rparr>],
               uploads = [(''1.5_cat.png'', 419430291)]\<rparr>"

definition over_dir :: "nat data_dir" where
  "over_dir = \<lparr>users = [alice_row],
               messages = [\<lparr>m_timestamp = Str ''2024-01-01T00:00:00'', m_username = Str ''alice'',
                            m_message = Str ''hi'', m_type = Str ''text''\<rparr>],
               uploads = [(''1.5_cat.png'', 419430292), (''1.7_dog.gif'', 10)]\<rparr>"

definition log_dir :: "nat data_dir" where
  "log_dir = \<lparr>users = [alice_row],
              messages = [\<lparr>m_timestamp = Str ''2024-01-01T00:00:00'', m_username = Str ''alice'',
                           m_message = Str ''hi'', m_type = NaN\<rparr>,
                          \<lparr>m_timestamp = Str ''2024-01-01T00:00:05'', m_username = Str ''bob'',
                           m_message = Str ''1.5_cat.png'', m_type = Str ''image''\<rparr>,
                          \<lparr>m_timestamp = Str ''2024-01-01T00:00:09'', m_username = Str ''alice'',
                           m_message = Str ''bye'', m_type = Str ''''\<rparr>],
              uploads = [(''1.5_cat.png'', 7)]\<rparr>"

definition numeric_row :: user_row where
  "numeric_row = \<lparr>u_username = Str ''123'', u_password_hash = Str ''sha256:pw''\<rparr>"

definition numeric_dir :: "nat data_dir" where
  "numeric_dir = \<lparr>users = [numeric_row], messages = [], uploads = []\<rparr>"

section \<open>Properties\<close>

subsection \<open>Evaluating the instance\<close>

lemma read_alice: "read_csv_users lib0 [alice_row] = [alice_row]"
  by (simp add: read_csv_users_def lib0_def read_users_table_def read_column_def cell_text_def
      is_int_text_def alice_row_def)

lemma read_empty [simp]: "read_csv_users L [] = []" "read_csv_messages L [] = []"
  by (simp_all add: read_csv_users_def read_csv_messages_def)

lemma falsy_Some [simp]: "falsy (Some v) \<longleftrightarrow> v = []"
  by (simp add: falsy_def)

lemma falsy_None [simp]: "falsy None"
  by (simp add: falsy_def)

subsection \<open>The file-type check\<close>

lemma rsplit_dot_last_append:
  "CHR ''.'' \<notin> set ext \<Longrightarrow> rsplit_dot_last (stem @ ''.'' @ ext) = ext"
  by (simp add: rsplit_dot_last_def takeWhile_append)

lemma allowed_file_append:
  "CHR ''.'' \<notin> set ext \<Longrightarrow>
     allowed_file (stem @ ''.'' @ ext) \<longleftrightarrow> lower ext \<in> ALLOWED_EXTENSIONS"
  using rsplit_dot_last_append [of ext stem] by (simp add: allowed_file_def)

text \<open>
  C9. A filename without a dot (the name \<^verbatim>\<open>png\<close>, say) is rejected by the file-type
  check, because the extension is the lowercased text after the last dot and such a
  name has none; an upload of it by a named user is answered with the error
  \<^verbatim>\<open>File type not allowed\<close> and changes nothing.
\<close>

theorem dotless_filename_rejected:
  "CHR ''.'' \<notin> set filename \<Longrightarrow>
     \<not> allowed_file filename \<and>
     (filename \<noteq> [] \<and> \<not> falsy username \<longrightarrow>
        upload_image L s (Some (filename, content)) username now_ts now_iso
          = (s, Error ''File type not allowed'', 400))"
  by (simp add: allowed_file_def upload_image_def)

theorem dotless_filename_rejected_witness:
  "\<not> allowed_file ''png'' \<and>
   upload_image lib0 alice_dir (Some (''png'', 7)) (Some ''alice'') ''1.5'' ''2024-01-01T00:00:00''
     = (alice_dir, Error ''File type not allowed'', 400)"
  using dotless_filename_rejected [of "''png''" "Some ''alice''" lib0 alice_dir 7 "''1.5''"
      "''2024-01-01T00:00:00''"]
  by simp

subsection \<open>The retention guard\<close>

lemma fold_delete_filter:
  "fold (\<lambda>filename dir. AList.delete filename dir) ks al = filter (\<lambda>p. fst p \<notin> set ks) al"
proof (induction ks arbitrary: al)
  case Nil
  then show ?case by simp
next
  case (Cons k ks)
  have "filter (\<lambda>p. fst p \<notin> set ks) (AList.delete k al) = filter (\<lambda>p. fst p \<notin> set (k # ks)) al"
    by (induction al) (auto simp: AList.delete_eq)
  with Cons show ?case by simp
qed

lemma clear_data_eq: "fst (clear_data s) = s\<lparr>messages := [], uploads := []\<rparr>"
proof -
  have "filter (\<lambda>p. fst p \<notin> set (map fst al)) al = []" for al :: "(string \<times> 'a) list"
    by (induction al) auto
  then show ?thesis
    by (simp add: clear_data_def Let_def fold_delete_filter)
qed

lemma check_and_clear_data_users [simp]: "users (check_and_clear_data L s) = users s"
  by (simp add: check_and_clear_data_def Let_def clear_data_eq)

lemma check_and_clear_data_over:
  "get_data_size L s > MAX_DATA_SIZE \<Longrightarrow>
     check_and_clear_data L s = s\<lparr>messages := [], uploads := []\<rparr>"
  by (simp add: check_and_clear_data_def Let_def clear_data_eq)

text \<open>
  C10. The retention check compares strictly: when the persisted size is exactly
  \<open>400 * 1024 * 1024\<close> bytes, \<^verbatim>\<open>check_and_clear_data\<close> clears nothing and leaves
  the message log and the upload store as they are.
\<close>

theorem check_at_ceiling_keeps_data:
  "get_data_size L s = 400 * 1024 * 1024 \<Longrightarrow>
     check_and_clear_data L s = s \<and>
     messages (check_and_clear_data L s) = messages s \<and>
     uploads (check_and_clear_data L s) = uploads s"
  by (simp add: check_and_clear_data_def Let_def MAX_DATA_SIZE_def)

theorem check_at_ceiling_keeps_data_witness:
  "get_data_size lib0 full_dir = 400 * 1024 * 1024 \<and> check_and_clear_data lib0 full_dir = full_dir
    \<and> messages (check_and_clear_data lib0 full_dir) = messages full_dir \<and>
     uploads (check_and_clear_data lib0 full_dir) = uploads full_dir"
proof -
  have h: "get_data_size lib0 full_dir = 400 * 1024 * 1024"
    by (simp add: get_data_size_def lib0_def full_dir_def alice_row_def cell_text_def)
  show ?thesis using h check_at_ceiling_keeps_data [OF h] by simp
qed

subsection \<open>Accepted writes\<close>

lemma dict_get_nonempty: "dict_get d k = Some v \<Longrightarrow> d \<noteq> []"
  by (auto simp: dict_get_def)

lemma login_users: "users s' = users s \<Longrightarrow> login L s' cred = login L s cred"
  by (simp add: login_def Let_def split: request_json.split)

lemma send_message_users: "users (fst (send_message L s data now_iso)) = users s"
  by (simp add: send_message_def Let_def split: request_json.split)

lemma upload_image_users:
  "users (fst (upload_image L s file username now_ts now_iso)) = users s"
  by (simp add: upload_image_def Let_def split: option.split prod.split)

lemma send_message_accepted:
  assumes "dict_get d ''username'' = Some u" "u \<noteq> []"
    "Str u \<in> set (map u_username (read_csv_users L (users s)))"
    "dict_get d ''message'' = Some m" "m \<noteq> []"
  shows "send_message L s (Json_Object d) now_iso =
     ((check_and_clear_data L s)\<lparr>messages :=
         read_csv_messages L (messages (check_and_clear_data L s)) @
         [\<lparr>m_timestamp = Str now_iso, m_username = Str u, m_message = Str m,
           m_type = cell_of (dict_get_default d ''type'' ''text'')\<rparr>]\<rparr>,
      Status_Message ''Message sent successfully'', 200)"
proof -
  have "d \<noteq> []" using assms(1) by (rule dict_get_nonempty)
  then show ?thesis
    using assms by (simp add: send_message_def Let_def)
qed

lemma upload_image_accepted:
  assumes "v \<noteq> []" "allowed_file file_filename"
  shows "upload_image L s (Some (file_filename, content)) (Some v) now_ts now_iso =
     ((check_and_clear_data L s)\<lparr>
         uploads := AList.update (secure_filename L (now_ts @ ''_'' @ file_filename)) content
                      (uploads (check_and_clear_data L s)),
         messages := read_csv_messages L (messages (check_and_clear_data L s)) @
           [\<lparr>m_timestamp = Str now_iso, m_username = Str v,
             m_message = Str (secure_filename L (now_ts @ ''_'' @ file_filename)),
             m_type = Str ''image''\<rparr>]\<rparr>,
      Status_Filename (secure_filename L (now_ts @ ''_'' @ file_filename)), 200)"
proof -
  have "file_filename \<noteq> []" using assms(2) by (auto simp: allowed_file_def)
  then show ?thesis
    using assms by (simp add: upload_image_def Let_def)
qed

text \<open>
  C1. When the persisted size exceeds the ceiling of 400 MiB, the next write to the
  message log or the upload store triggers the reclaim: the check empties the message
  log (the table keeps its columns) and deletes every file of the upload store, so the
  write leaves only its own row (and its own file) behind. The credential store is not
  touched: after the check, and after the write, every login is answered as it was
  before, so a registered user still logs in.
\<close>

theorem reclaim_on_next_write:
  assumes over: "get_data_size L s > 400 * 1024 * 1024"
  shows "check_and_clear_data L s = \<lparr>users = users s, messages = [], uploads = []\<rparr> \<and>
    (dict_get d ''username'' = Some u \<and> u \<noteq> [] \<and>
     Str u \<in> set (map u_username (read_csv_users L (users s))) \<and>
     dict_get d ''message'' = Some m \<and> m \<noteq> [] \<longrightarrow>
       send_message L s (Json_Object d) now_iso =
         (\<lparr>users = users s,
           messages = [\<lparr>m_timestamp = Str now_iso, m_username = Str u, m_message = Str m,
                        m_type = cell_of (dict_get_default d ''type'' ''text'')\<rparr>],
           uploads = []\<rparr>,
          Status_Message ''Message sent successfully'', 200)) \<and>
    (v \<noteq> [] \<and> allowed_file file_filename \<longrightarrow>
       upload_image L s (Some (file_filename, content)) (Some v) now_ts now_iso =
         (\<lparr>users = users s,
           messages = [\<lparr>m_timestamp = Str now_iso, m_username = Str v,
                        m_message = Str (secure_filename L (now_ts @ ''_'' @ file_filename)),
                        m_type = Str ''image''\<rparr>],
           uploads = [(secure_filename L (now_ts @ ''_'' @ file_filename), content)]\<rparr>,
          Status_Filename (secure_filename L (now_ts @ ''_'' @ file_filename)), 200)) \<and>
    login L (check_and_clear_data L s) cred = login L s cred \<and>
    login L (fst (send_message L s data now_iso)) cred = login L s cred \<and>
    login L (fst (upload_image L s file username now_ts now_iso)) cred = login L s cred"
proof -
  have "get_data_size L s > MAX_DATA_SIZE"
    unfolding MAX_DATA_SIZE_def using over by simp
  then have clr: "check_and_clear_data L s = \<lparr>users = users s, messages = [], uploads = []\<rparr>"
    by (simp add: check_and_clear_data_over)
  have lg: "login L (check_and_clear_data L s) cred = login L s cred"
    "login L (fst (send_message L s data now_iso)) cred = login L s cred"
    "login L (fst (upload_image L s file username now_ts now_iso)) cred = login L s cred"
    by (rule login_users, simp add: send_message_users upload_image_users)+
  have sm: "send_message L s (Json_Object d) now_iso =
         (\<lparr>users = users s,
           messages = [\<lparr>m_timestamp = Str now_iso, m_username = Str u, m_message = Str m,
                        m_type = cell_of (dict_get_default d ''type'' ''text'')\<rparr>],
           uploads = []\<rparr>,
          Status_Message ''Message sent successfully'', 200)"
    if "dict_get d ''username'' = Some u \<and> u \<noteq> [] \<and>
        Str u \<in> set (map u_username (read_csv_users L (users s))) \<and>
        dict_get d ''message'' = Some m \<and> m \<noteq> []"
    using that send_message_accepted [of d u L s m now_iso] by (simp add: clr)
  have up: "upload_image L s (Some (file_filename, content)) (Some v) now_ts now_iso =
         (\<lparr>users = users s,
           messages = [\<lparr>m_timestamp = Str now_iso, m_username = Str v,
                        m_message = Str (secure_filename L (now_ts @ ''_'' @ file_filename)),
                        m_type = Str ''image''\<rparr>],
           uploads = [(secure_filename L (now_ts @ ''_'' @ file_filename), content)]\<rparr>,
          Status_Filename (secure_filename L (now_ts @ ''_'' @ file_filename)), 200)"
    if "v \<noteq> [] \<and> allowed_file file_filename"
    using that upload_image_accepted [of v file_filename L s content now_ts now_iso]
    by (simp add: clr)
  from clr sm up lg show ?thesis
    by blast
qed

theorem reclaim_on_next_write_witness:
  "get_data_size lib0 over_dir > 400 * 1024 * 1024 \<and>
   check_and_clear_data lib0 over_dir = \<lparr>users = [alice_row], messages = [], uploads = []\<rparr> \<and>
   send_message lib0 over_dir
       (Json_Object [(''username'', Some ''alice''), (''message'', Some ''hello'')])
       ''2024-01-02T00:00:00'' =
     (\<lparr>users = [alice_row],
       messages = [\<lparr>m_timestamp = Str ''2024-01-02T00:00:00'', m_username = Str ''alice'',
                    m_message = Str ''hello'', m_type = Str ''text''\<rparr>],
       uploads = []\<rparr>,
      Status_Message ''Message sent successfully'', 200) \<and>
   upload_image lib0 over_dir (Some (''bird.JPG'', 12)) (Some ''alice'') ''2.5''
       ''2024-01-02T00:00:00'' =
     (\<lparr>users = [alice_row],
       messages = [\<lparr>m_timestamp = Str ''2024-01-02T00:00:00'', m_username = Str ''alice'',
                    m_message = Str ''2.5_bird.JPG'', m_type = Str ''image''\<rparr>],
       uploads = [(''2.5_bird.JPG'', 12)]\<rparr>,
      Status_Filename ''2.5_bird.JPG'', 200) \<and>
   login lib0
       (fst (send_message lib0 over_dir
          (Json_Object [(''username'', Some ''alice''), (''message'', Some ''hello'')])
          ''2024-01-02T00:00:00''))
       (Json_Object [(''username'', Some ''alice''), (''password'', Some ''secret'')]) =
     (Status_Username ''alice'', 200)"
proof -
  have "get_data_size lib0 over_dir = 419430411"
    by (simp add: get_data_size_def lib0_def over_dir_def alice_row_def cell_text_def)
  then have h: "get_data_size lib0 over_dir > 400 * 1024 * 1024"
    by simp
  have a: "allowed_file ''bird.JPG''"
    by (simp add: allowed_file_def rsplit_dot_last_def lower_def lower_char_def
        ALLOWED_EXTENSIONS_def)
  have u: "users over_dir = [alice_row]"
    by (simp add: over_dir_def)
  have l: "login lib0 over_dir
       (Json_Object [(''username'', Some ''alice''), (''password'', Some ''secret'')]) =
     (Status_Username ''alice'', 200)"
    by (simp add: login_def dict_get_def u read_alice)
      (simp add: alice_row_def lib0_def hash_password_def)
  note T = reclaim_on_next_write [OF h,
      where d = "[(''username'', Some ''alice''), (''message'', Some ''hello'')]"
        and u = "''alice''" and m = "''hello''" and now_iso = "''2024-01-02T00:00:00''"
        and v = "''alice''" and file_filename = "''bird.JPG''" and content = 12
        and now_ts = "''2.5''"
        and data = "Json_Object [(''username'', Some ''alice''), (''message'', Some ''hello'')]"
        and cred = "Json_Object [(''username'', Some ''alice''), (''password'', Some ''secret'')]"]
  have r1: "check_and_clear_data lib0 over_dir =
      \<lparr>users = [alice_row], messages = [], uploads = []\<rparr>"
    using T [THEN conjunct1] by (simp add: u)
  have r2: "send_message lib0 over_dir
       (Json_Object [(''username'', Some ''alice''), (''message'', Some ''hello'')])
       ''2024-01-02T00:00:00'' =
     (\<lparr>users = [alice_row],
       messages = [\<lparr>m_timestamp = Str ''2024-01-02T00:00:00'', m_username = Str ''alice'',
                    m_message = Str ''hello'', m_type = Str ''text''\<rparr>],
       uploads = []\<rparr>,
      Status_Message ''Message sent successfully'', 200)"
    using T [THEN conjunct2, THEN conjunct1]
    by (simp add: dict_get_def dict_get_default_def cell_of_def u read_alice)
      (simp add: alice_row_def)
  have r3: "upload_image lib0 over_dir (Some (''bird.JPG'', 12)) (Some ''alice'') ''2.5''
       ''2024-01-02T00:00:00'' =
     (\<lparr>users = [alice_row],
       messages = [\<lparr>m_timestamp = Str ''2024-01-02T00:00:00'', m_username = Str ''alice'',
                    m_message = Str ''2.5_bird.JPG'', m_type = Str ''image''\<rparr>],
       uploads = [(''2.5_bird.JPG'', 12)]\<rparr>,
      Status_Filename ''2.5_bird.JPG'', 200)"
    using T [THEN conjunct2, THEN conjunct2, THEN conjunct1] a
    by (simp add: u) (simp add: lib0_def)
  have r4: "login lib0
       (fst (send_message lib0 over_dir
          (Json_Object [(''username'', Some ''alice''), (''message'', Some ''hello'')])
          ''2024-01-02T00:00:00''))
       (Json_Object [(''username'', Some ''alice''), (''password'', Some ''secret'')]) =
     (Status_Username ''alice'', 200)"
    using T [THEN conjunct2, THEN conjunct2, THEN conjunct2, THEN conjunct2, THEN conjunct1] l
    by simp
  show ?thesis
    by (intro conjI) (rule h r1 r2 r3 r4)+
qed

subsection \<open>Reading the message log\<close>

text \<open>
  C6. Whatever the message log holds, \<^verbatim>\<open>GET /messages\<close> returns all of the records
  that are read from the file, in file order, none dropped and none moved: record \<open>i\<close> of
  the answer is record \<open>i\<close> of the table read, with \<^verbatim>\<open>text\<close> as its type where the
  table has none.
\<close>

theorem get_messages_in_file_order:
  "\<exists>rs. get_messages L s = (Records rs, 200) \<and>
        length rs = length (read_csv_messages L (messages s)) \<and>
        (\<forall>i < length (read_csv_messages L (messages s)).
           m_timestamp (rs ! i) = m_timestamp (read_csv_messages L (messages s) ! i) \<and>
           m_username (rs ! i) = m_username (read_csv_messages L (messages s) ! i) \<and>
           m_message (rs ! i) = m_message (read_csv_messages L (messages s) ! i) \<and>
           m_type (rs ! i) =
             (case m_type (read_csv_messages L (messages s) ! i) of
                NaN \<Rightarrow> Str ''text'' | Str t \<Rightarrow> Str t | Num n \<Rightarrow> Num n | Bool b \<Rightarrow> Bool b))"
  by (simp add: get_messages_def fillna_type_def split: cell.split)

theorem get_messages_in_file_order_witness:
  "get_messages lib0 log_dir =
     (Records [\<lparr>m_timestamp = Str ''2024-01-01T00:00:00'', m_username = Str ''alice'',
                 m_message = Str ''hi'', m_type = Str ''text''\<rparr>,
               \<lparr>m_timestamp = Str ''2024-01-01T00:00:05'', m_username = Str ''bob'',
                 m_message = Str ''1.5_cat.png'', m_type = Str ''image''\<rparr>,
               \<lparr>m_timestamp = Str ''2024-01-01T00:00:09'', m_username = Str ''alice'',
                 m_message = Str ''bye'', m_type = Str ''text''\<rparr>], 200)"
proof -
  have m: "read_csv_messages lib0 (messages log_dir) =
      [\<lparr>m_timestamp = Str ''2024-01-01T00:00:00'', m_username = Str ''alice'',
         m_message = Str ''hi'', m_type = NaN\<rparr>,
       \<lparr>m_timestamp = Str ''2024-01-01T00:00:05'', m_username = Str ''bob'',
         m_message = Str ''1.5_cat.png'', m_type = Str ''image''\<rparr>,
       \<lparr>m_timestamp = Str ''2024-01-01T00:00:09'', m_username = Str ''alice'',
         m_message = Str ''bye'', m_type = NaN\<rparr>]"
    by (simp add: read_csv_messages_def lib0_def read_messages_table_def read_column_def
        cell_text_def is_int_text_def log_dir_def)
  from get_messages_in_file_order [of lib0 log_dir] obtain rs where
    g: "get_messages lib0 log_dir = (Records rs, 200)" and
    n: "length rs = length (read_csv_messages lib0 (messages log_dir))" and
    r: "\<forall>i < length (read_csv_messages lib0 (messages log_dir)).
           m_timestamp (rs ! i) = m_timestamp (read_csv_messages lib0 (messages log_dir) ! i) \<and>
           m_username (rs ! i) = m_username (read_csv_messages lib0 (messages log_dir) ! i) \<and>
           m_message (rs ! i) = m_message (read_csv_messages lib0 (messages log_dir) ! i) \<and>
           m_type (rs ! i) =
             (case m_type (read_csv_messages lib0 (messages log_dir) ! i) of
                NaN \<Rightarrow> Str ''text'' | Str t \<Rightarrow> Str t | Num n \<Rightarrow> Num n | Bool b \<Rightarrow> Bool b)"
    by blast
  from n m obtain a b c where rs: "rs = [a, b, c]"
    by (cases rs; cases "tl rs"; cases "tl (tl rs)"; cases "tl (tl (tl rs))") auto
  from r [rule_format, of 0] r [rule_format, of 1] r [rule_format, of 2]
  have "a = \<lparr>m_timestamp = Str ''2024-01-01T00:00:00'', m_username = Str ''alice'',
                 m_message = Str ''hi'', m_type = Str ''text''\<rparr>"
       "b = \<lparr>m_timestamp = Str ''2024-01-01T00:00:05'', m_username = Str ''bob'',
                 m_message = Str ''1.5_cat.png'', m_type = Str ''image''\<rparr>"
       "c = \<lparr>m_timestamp = Str ''2024-01-01T00:00:09'', m_username = Str ''alice'',
                 m_message = Str ''bye'', m_type = Str ''text''\<rparr>"
    by (simp_all add: m rs)
  with g rs show ?thesis by simp
qed

subsection \<open>Uploads do not check the user\<close>

text \<open>
  C7. The upload path does not look the username up in the credential store: every
  upload with a non-empty username and an allowed extension succeeds, stores the file
  and appends an image message under that username, registered or not; a text message
  from the same username, when it is not found in the credential store, is refused.
\<close>

theorem upload_skips_user_check:
  assumes "u \<noteq> []" "CHR ''.'' \<notin> set ext" "lower ext \<in> ALLOWED_EXTENSIONS"
  shows
    "snd (upload_image L s (Some (stem @ ''.'' @ ext, content)) (Some u) now_ts now_iso) =
       (Status_Filename (secure_filename L (now_ts @ ''_'' @ stem @ ''.'' @ ext)), 200) \<and>
     messages (fst (upload_image L s (Some (stem @ ''.'' @ ext, content)) (Some u) now_ts now_iso)) =
       read_csv_messages L (messages (check_and_clear_data L s)) @
         [\<lparr>m_timestamp = Str now_iso, m_username = Str u,
           m_message = Str (secure_filename L (now_ts @ ''_'' @ stem @ ''.'' @ ext)),
           m_type = Str ''image''\<rparr>] \<and>
     map_of (uploads (fst (upload_image L s (Some (stem @ ''.'' @ ext, content)) (Some u)
                             now_ts now_iso)))
         (secure_filename L (now_ts @ ''_'' @ stem @ ''.'' @ ext)) = Some content \<and>
     (Str u \<notin> set (map u_username (read_csv_users L (users s))) \<and>
      dict_get d ''username'' = Some u \<and>
      dict_get d ''message'' = Some m \<and> m \<noteq> [] \<longrightarrow>
        send_message L s (Json_Object d) now_iso = (s, Error ''User not found'', 401))"
proof -
  have a: "allowed_file (stem @ ''.'' @ ext)"
    using assms(2,3) allowed_file_append [of ext stem] by simp
  have sm: "send_message L s (Json_Object d) now_iso = (s, Error ''User not found'', 401)"
    if "Str u \<notin> set (map u_username (read_csv_users L (users s)))"
      "dict_get d ''username'' = Some u" "dict_get d ''message'' = Some m" "m \<noteq> []"
  proof -
    have "d \<noteq> []" using that(2) by (rule dict_get_nonempty)
    then show ?thesis
      using that assms(1) by (simp add: send_message_def Let_def)
  qed
  show ?thesis
    using sm
    by (simp only: upload_image_accepted [OF assms(1) a]) (simp add: update_conv')
qed

theorem upload_skips_user_check_witness:
  "snd (upload_image lib0 alice_dir (Some (''cat.PNG'', 7)) (Some ''mallory'') ''1.5''
          ''2024-01-01T00:00:00'') = (Status_Filename ''1.5_cat.PNG'', 200) \<and>
   messages (fst (upload_image lib0 alice_dir (Some (''cat.PNG'', 7)) (Some ''mallory'') ''1.5''
          ''2024-01-01T00:00:00'')) =
     [\<lparr>m_timestamp = Str ''2024-01-01T00:00:00'', m_username = Str ''mallory'',
       m_message = Str ''1.5_cat.PNG'', m_type = Str ''image''\<rparr>] \<and>
   Str ''mallory'' \<notin> set (map u_username (read_csv_users lib0 (users alice_dir))) \<and>
   send_message lib0 alice_dir
       (Json_Object [(''username'', Some ''mallory''), (''message'', Some ''hi'')])
       ''2024-01-01T00:00:00'' = (alice_dir, Error ''User not found'', 401)"
proof -
  have l: "lower ''PNG'' \<in> ALLOWED_EXTENSIONS"
    by (simp add: lower_def lower_char_def ALLOWED_EXTENSIONS_def)
  have c: "check_and_clear_data lib0 alice_dir = alice_dir"
    by (simp add: check_and_clear_data_def get_data_size_def lib0_def alice_dir_def alice_row_def
        MAX_DATA_SIZE_def cell_text_def)
  have u: "users alice_dir = [alice_row]" "messages alice_dir = []"
    by (simp_all add: alice_dir_def)
  have n: "Str ''mallory'' \<notin> set (map u_username (read_csv_users lib0 (users alice_dir)))"
    by (simp add: u read_alice) (simp add: alice_row_def)
  have f: "secure_filename lib0 ''1.5_cat.PNG'' = ''1.5_cat.PNG''"
    by (simp add: lib0_def)
  have g: "dict_get [(''username'', Some ''mallory''), (''message'', Some ''hi'')] ''username''
             = Some ''mallory''"
    "dict_get [(''username'', Some ''mallory''), (''message'', Some ''hi'')] ''message''
             = Some ''hi''"
    by (simp_all add: dict_get_def)
  note T = upload_skips_user_check [where u = "''mallory''" and ext = "''PNG''" and L = lib0
      and s = alice_dir and stem = "''cat''" and content = 7 and now_ts = "''1.5''"
      and now_iso = "''2024-01-01T00:00:00''"
      and d = "[(''username'', Some ''mallory''), (''message'', Some ''hi'')]"
      and m = "''hi''", OF _ _ l, unfolded c]
  show ?thesis
    using T n g f by (simp add: u)
qed

subsection \<open>Text messages from unknown users\<close>

text \<open>
  C2, as the code has it. A request posting a text message whose username is not found
  in the credential store changes nothing and does not succeed, so the message log
  read afterwards is the one read before; when its username and its message text are
  both non-empty the answer is \<^verbatim>\<open>User not found\<close> with status 401.
\<close>

theorem unknown_user_rejected:
  assumes "dict_get d ''username'' = Some u"
    "Str u \<notin> set (map u_username (read_csv_users L (users s)))"
  shows
    "(u \<noteq> [] \<and> \<not> falsy (dict_get d ''message'') \<longrightarrow>
        send_message L s (Json_Object d) now_iso = (s, Error ''User not found'', 401)) \<and>
     fst (send_message L s (Json_Object d) now_iso) = s \<and>
     snd (snd (send_message L s (Json_Object d) now_iso)) \<noteq> 200 \<and>
     get_messages L (fst (send_message L s (Json_Object d) now_iso)) = get_messages L s"
proof -
  have "d \<noteq> []" using assms(1) by (rule dict_get_nonempty)
  then show ?thesis
    using assms by (simp add: send_message_def Let_def)
qed

theorem unknown_user_rejected_witness:
  "send_message lib0 alice_dir
       (Json_Object [(''username'', Some ''bob''), (''message'', Some ''hi'')])
       ''2024-01-01T00:00:00'' = (alice_dir, Error ''User not found'', 401) \<and>
   get_messages lib0 (fst (send_message lib0 alice_dir
       (Json_Object [(''username'', Some ''bob''), (''message'', Some ''hi'')])
       ''2024-01-01T00:00:00''))
     = get_messages lib0 alice_dir"
proof -
  have g: "dict_get [(''username'', Some ''bob''), (''message'', Some ''hi'')] ''username''
             = Some ''bob''"
    by (simp add: dict_get_def)
  have m: "\<not> falsy (dict_get [(''username'', Some ''bob''), (''message'', Some ''hi'')] ''message'')"
    by (simp add: dict_get_def)
  have n: "Str ''bob'' \<notin> set (map u_username (read_csv_users lib0 (users alice_dir)))"
    by (simp add: alice_dir_def read_alice) (simp add: alice_row_def)
  show ?thesis
    using unknown_user_rejected [OF g n, of "''2024-01-01T00:00:00''"] m by simp
qed

text \<open>
  The check for missing fields comes first: an unregistered user posting an empty
  message is told that username and message are required, not that the user is
  unknown.
\<close>

theorem empty_message_counterexample:
  "Str ''bob'' \<notin> set (map u_username (read_csv_users lib0 (users alice_dir))) \<and>
   send_message lib0 alice_dir
       (Json_Object [(''username'', Some ''bob''), (''message'', Some '''')])
       ''2024-01-01T00:00:00'' = (alice_dir, Error ''Username and message are required'', 400)"
  by (simp add: send_message_def dict_get_def dict_get_default_def Let_def alice_dir_def
      read_alice)
    (simp add: alice_row_def)

subsection \<open>Uploads with a disallowed extension\<close>

text \<open>
  C5, as the code has it. An upload whose filename ends in an extension that, lowercased,
  is not one of png, jpg, jpeg, gif stores no file and appends no message, and is
  answered with status 400; when it carries a non-empty username the answer is
  \<^verbatim>\<open>File type not allowed\<close>.
\<close>

theorem disallowed_extension_rejected:
  assumes "CHR ''.'' \<notin> set ext" "lower ext \<notin> ALLOWED_EXTENSIONS"
  shows
    "(\<not> falsy username \<longrightarrow>
        upload_image L s (Some (stem @ ''.'' @ ext, content)) username now_ts now_iso =
          (s, Error ''File type not allowed'', 400)) \<and>
     fst (upload_image L s (Some (stem @ ''.'' @ ext, content)) username now_ts now_iso) = s \<and>
     snd (snd (upload_image L s (Some (stem @ ''.'' @ ext, content)) username now_ts now_iso)) = 400"
proof -
  have "\<not> allowed_file (stem @ ''.'' @ ext)"
    using assms allowed_file_append [of ext stem] by simp
  then show ?thesis
    by (simp add: upload_image_def)
qed

theorem disallowed_extension_rejected_witness:
  "upload_image lib0 alice_dir (Some (''notes.TXT'', 3)) (Some ''alice'') ''1.5''
       ''2024-01-01T00:00:00'' = (alice_dir, Error ''File type not allowed'', 400)"
proof -
  have l: "lower ''TXT'' \<notin> ALLOWED_EXTENSIONS"
    by (simp add: lower_def lower_char_def ALLOWED_EXTENSIONS_def)
  show ?thesis
    using disallowed_extension_rejected [of "''TXT''" "Some ''alice''" lib0 alice_dir "''notes''" 3
        "''1.5''" "''2024-01-01T00:00:00''", OF _ l]
    by simp
qed

text \<open>
  The username is checked before the extension: the same upload without a username is
  answered \<^verbatim>\<open>Username is required\<close>.
\<close>

theorem missing_username_counterexample:
  "lower (rsplit_dot_last ''notes.txt'') \<notin> ALLOWED_EXTENSIONS \<and>
   upload_image lib0 alice_dir (Some (''notes.txt'', 3)) None ''1.5'' ''2024-01-01T00:00:00''
     = (alice_dir, Error ''Username is required'', 400)"
  by (simp add: upload_image_def rsplit_dot_last_def lower_def lower_char_def
      ALLOWED_EXTENSIONS_def)

subsection \<open>Registration\<close>

lemma register_new:
  assumes "dict_get d ''username'' = Some u" "u \<noteq> []" "dict_get d ''password'' = Some p"
    "p \<noteq> []" "Str u \<notin> set (map u_username (read_csv_users L (users s)))"
  shows "register L s (Json_Object d) =
     (s\<lparr>users := read_csv_users L (users s) @
         [\<lparr>u_username = Str u, u_password_hash = Str (hash_password L p)\<rparr>]\<rparr>,
      Status_Message ''User registered successfully'', 200)"
proof -
  have "d \<noteq> []" using assms(1) by (rule dict_get_nonempty)
  then show ?thesis
    using assms by (simp add: register_def Let_def)
qed

lemma register_found:
  assumes "dict_get d ''username'' = Some u" "u \<noteq> []" "dict_get d ''password'' = Some p"
    "p \<noteq> []" "Str u \<in> set (map u_username (read_csv_users L (users s)))"
  shows "register L s (Json_Object d) = (s, Error ''Username already exists'', 400)"
proof -
  have "d \<noteq> []" using assms(1) by (rule dict_get_nonempty)
  then show ?thesis
    using assms by (simp add: register_def Let_def)
qed

lemma read_numeric:
  "read_csv_users lib0 [numeric_row] =
     [\<lparr>u_username = Num ''123'', u_password_hash = Str ''sha256:pw''\<rparr>]"
  by (simp add: read_csv_users_def lib0_def read_users_table_def read_column_def cell_text_def
      is_int_text_def int_text_def numeric_row_def)

text \<open>
  C3 fails on the code. The username \<^verbatim>\<open>123\<close> is registered on an empty credential
  store; the table is written with the cell \<^verbatim>\<open>123\<close>, and the next \<^verbatim>\<open>pd.read_csv\<close> reads
  the username column as numbers. The string \<^verbatim>\<open>123\<close> of the second request equals no
  cell read, so the test for an existing username misses it: the second registration
  succeeds too and the table gets a second row for the username.
\<close>

theorem numeric_username_registered_twice:
  "register lib0 empty_dir
       (Json_Object [(''username'', Some ''123''), (''password'', Some ''pw'')]) =
     (numeric_dir, Status_Message ''User registered successfully'', 200) \<and>
   register lib0 numeric_dir
       (Json_Object [(''username'', Some ''123''), (''password'', Some ''pw'')]) =
     (\<lparr>users = [\<lparr>u_username = Num ''123'', u_password_hash = Str ''sha256:pw''\<rparr>,
                \<lparr>u_username = Str ''123'', u_password_hash = Str ''sha256:pw''\<rparr>],
       messages = [], uploads = []\<rparr>,
      Status_Message ''User registered successfully'', 200)"
proof -
  have "register lib0 empty_dir
       (Json_Object [(''username'', Some ''123''), (''password'', Some ''pw'')]) =
     (numeric_dir, Status_Message ''User registered successfully'', 200)"
    by (simp add: register_def dict_get_def Let_def empty_dir_def numeric_dir_def
        numeric_row_def hash_password_def lib0_def)
  moreover have "register lib0 numeric_dir
       (Json_Object [(''username'', Some ''123''), (''password'', Some ''pw'')]) =
     (\<lparr>users = [\<lparr>u_username = Num ''123'', u_password_hash = Str ''sha256:pw''\<rparr>,
                \<lparr>u_username = Str ''123'', u_password_hash = Str ''sha256:pw''\<rparr>],
       messages = [], uploads = []\<rparr>,
      Status_Message ''User registered successfully'', 200)"
    by (simp add: register_def dict_get_def Let_def numeric_dir_def read_numeric)
      (simp add: hash_password_def lib0_def)
  ultimately show ?thesis by simp
qed

subsection \<open>Login\<close>







text \<open>
  Where the credential table is not read back as written the exact pair is refused:
  after the registration of \<^verbatim>\<open>123\<close> above, the username column is read as numbers
  and the login with \<^verbatim>\<open>123\<close> and its password finds no row.
\<close>

lemma numeric_username_cannot_log_in:
  "login lib0 numeric_dir (Json_Object [(''username'', Some ''123''), (''password'', Some ''pw'')])
     = (Error ''Invalid username or password'', 401)"
  by (simp add: login_def dict_get_def Let_def numeric_dir_def read_numeric)

subsection \<open>Status codes\<close>

text \<open>
  C8, as the code has it. Every handler maps its outcome to a status code in one way:
  a success is answered 200; client data that is missing or invalid (a body that is
  \<^verbatim>\<open>null\<close> or empty, a missing or empty field, a username found already registered,
  no file or a disallowed extension) is answered 400; and 401 answers a login with
  invalid credentials and also \<^verbatim>\<open>POST /messages\<close> with a username that is not found in
  the credential store: \<^verbatim>\<open>User not found\<close> goes with 401, never with 400. The only
  other status is 500, the answer of the catch-all to an exception: \<^verbatim>\<open>request.json\<close>
  raising on a request without a JSON body that can be parsed, a JSON body that is
  not an object, or an image that is not in the upload store.
\<close>

theorem status_code_mapping:
  assumes "handle L s r = (s', p, st)"
  shows
    "(st = 200 \<or> st = 400 \<or> st = 401 \<or> st = 500) \<and>
     (st = 200 \<longleftrightarrow> (\<forall>e. p \<noteq> Error e) \<and> (\<forall>x. p \<noteq> Error_Str x)) \<and>
     (st = 400 \<longleftrightarrow>
        p \<in> Error ` {''No JSON data received'', ''Username and password are required'',
                      ''Username already exists'', ''No file part'', ''Username is required'',
                      ''No selected file'', ''File type not allowed'',
                      ''Username and message are required''}) \<and>
     (st = 401 \<longleftrightarrow>
        p = Error ''Invalid username or password'' \<or> p = Error ''User not found'') \<and>
     (st = 500 \<longleftrightarrow> (\<exists>x. p = Error_Str x)) \<and>
     (p = Error ''User not found'' \<longleftrightarrow>
        (\<exists>d now_iso. r = Send_Message (Json_Object d) now_iso \<and>
           \<not> falsy (dict_get d ''username'') \<and> \<not> falsy (dict_get d ''message'') \<and>
           Str (the (dict_get d ''username''))
             \<notin> set (map u_username (read_csv_users L (users s)))))"
proof (cases r)
  case (Register data)
  with assms show ?thesis
    by (auto simp add: register_def Let_def split: request_json.splits if_splits)
next
  case (Login data)
  with assms show ?thesis
    by (auto simp add: login_def Let_def split: request_json.splits if_splits)
next
  case (Upload upl username now_ts now_iso)
  with assms show ?thesis
    by (auto simp add: upload_image_def Let_def split: if_splits option.splits prod.splits)
next
  case (Get_Image filename)
  with assms show ?thesis
    by (auto simp add: get_image_def split: option.splits)
next
  case Get_Messages
  with assms show ?thesis
    by (auto simp add: get_messages_def)
next
  case (Send_Message data now_iso)
  with assms show ?thesis
    by (auto simp add: send_message_def Let_def dict_get_def
        split: request_json.splits if_splits)
qed

theorem status_code_mapping_witness:
  "fst (snd (handle lib0 alice_dir
       (Send_Message (Json_Object [(''username'', Some ''carol''), (''message'', Some ''hello'')])
          ''2024-01-01T00:00:00''))) = Error ''User not found'' \<and>
   snd (snd (handle lib0 alice_dir
       (Send_Message (Json_Object [(''username'', Some ''carol''), (''message'', Some ''hello'')])
          ''2024-01-01T00:00:00''))) = 401"
proof -
  obtain s' p st where h: "handle lib0 alice_dir
       (Send_Message (Json_Object [(''username'', Some ''carol''), (''message'', Some ''hello'')])
          ''2024-01-01T00:00:00'') = (s', p, st)"
    by (rule prod_cases3)
  have c: "\<not> falsy (dict_get [(''username'', Some ''carol''), (''message'', Some ''hello'')]
             ''username'')"
    "\<not> falsy (dict_get [(''username'', Some ''carol''), (''message'', Some ''hello'')]
             ''message'')"
    "Str (the (dict_get [(''username'', Some ''carol''), (''message'', Some ''hello'')]
             ''username''))
       \<notin> set (map u_username (read_csv_users lib0 (users alice_dir)))"
    by (simp_all add: dict_get_def alice_dir_def read_alice) (simp add: alice_row_def)
  note T = status_code_mapping [OF h]
  have ex: "\<exists>d now_iso.
       Send_Message (Json_Object [(''username'', Some ''carol''), (''message'', Some ''hello'')])
          ''2024-01-01T00:00:00'' = Send_Message (Json_Object d) now_iso \<and>
       \<not> falsy (dict_get d ''username'') \<and> \<not> falsy (dict_get d ''message'') \<and>
       Str (the (dict_get d ''username''))
         \<notin> set (map u_username (read_csv_users lib0 (users alice_dir)))"
    using c by (intro exI conjI) (rule refl, assumption+)
  have p: "p = Error ''User not found''"
    using T [THEN conjunct2, THEN conjunct2, THEN conjunct2, THEN conjunct2, THEN conjunct2,
        THEN iffD2, OF ex] .
  have "st = 401"
    using T [THEN conjunct2, THEN conjunct2, THEN conjunct2, THEN conjunct1] p by simp
  with p h show ?thesis
    by simp
qed

text \<open>
  A text message from an unregistered user, with both fields present, is answered 401.
\<close>

theorem unknown_user_status_counterexample:
  "Str ''carol'' \<notin> set (map u_username (read_csv_users lib0 (users alice_dir))) \<and>
   send_message lib0 alice_dir
       (Json_Object [(''username'', Some ''carol''), (''message'', Some ''hello'')])
       ''2024-01-01T00:00:00'' = (alice_dir, Error ''User not found'', 401) \<and>
   snd (snd (send_message lib0 alice_dir
       (Json_Object [(''username'', Some ''carol''), (''message'', Some ''hello'')])
       ''2024-01-01T00:00:00'')) \<noteq> 400"
  by (simp add: send_message_def dict_get_def dict_get_default_def Let_def alice_dir_def
      read_alice)
    (simp add: alice_row_def)

end
